theory Spec2Isabelle
  imports Complex_Main "HOL-Library.Log_Nat"
begin

section \<open>Values of the Python standard library\<close>

text \<open>
  A Python \<^verbatim>\<open>timedelta\<close> is a whole number of microseconds (its normalised
  fields days, seconds and microseconds are the digits of that number), and an aware
  \<^verbatim>\<open>datetime\<close> is an instant, counted here in microseconds since the epoch.
  Adding a timedelta to a datetime adds the two counts; comparing two aware datetimes
  compares their instants. A datetime lies in the years 1 to 9999:
  \<open>datetime_min\<close> is 0001-01-01T00:00:00Z and \<open>datetime_max\<close> is
  9999-12-31T23:59:59.999999Z.
\<close>

type_synonym timedelta = int

type_synonym datetime = int

definition datetime_min :: datetime where
  "datetime_min = - 62135596800000000"

definition datetime_max :: datetime where
  "datetime_max = 253402300799999999"

definition is_datetime :: "int \<Rightarrow> bool" where
  "is_datetime t = (datetime_min \<le> t \<and> t \<le> datetime_max)"

definition microseconds :: "int \<Rightarrow> timedelta" where
  "microseconds n = n"

definition minutes :: "int \<Rightarrow> timedelta" where
  "minutes n = n * 60000000"

definition hours :: "int \<Rightarrow> timedelta" where
  "hours n = n * 3600000000"

text \<open>
  A Python float is an IEEE 754 double: zero, or a number \<open>\<plusminus> m \<sqdot> 2\<^sup>k\<close> with
  \<open>2\<^sup>5\<^sup>2 \<le> m < 2\<^sup>5\<^sup>3\<close>. The model keeps a float as the rational number it is. A
  division returns the double nearest to the exact quotient, a tie going to the even
  \<open>m\<close>. For \<open>x > 0\<close>, \<open>flog2 x\<close> is the exponent \<open>e\<close> with
  \<open>2\<^sup>e \<le> x < 2\<^sup>e\<^sup>+\<^sup>1\<close>, so that the doubles around \<open>x\<close> are the multiples of
  \<open>2\<^sup>e\<^sup>-\<^sup>5\<^sup>2\<close>. Overflow and subnormal numbers are left out: a timedelta is at most
  \<open>10\<^sup>9\<close> days, and no quotient taken here comes near either.
\<close>

definition round_half_even :: "rat \<Rightarrow> int" where
  "round_half_even z =
     (let n = \<lfloor>z\<rfloor>; f = z - of_int n
      in if f < 1 / 2 then n else if 1 / 2 < f then n + 1 else if even n then n else n + 1)"

definition flog2 :: "rat \<Rightarrow> int" where
  "flog2 x = (if 1 \<le> x then bitlen \<lfloor>x\<rfloor> - 1 else - bitlen (\<lceil>1 / x\<rceil> - 1))"

definition round_double :: "rat \<Rightarrow> rat" where
  "round_double x =
     (let e = flog2 \<bar>x\<bar> - 52
      in sgn x * (of_int (round_half_even (\<bar>x\<bar> / 2 powi e)) * 2 powi e))"

text \<open>
  Python's \<^verbatim>\<open>/\<close>, on two integers as on two floats, for a divisor that is not zero:
  the quotient, correctly rounded.
\<close>

definition truediv :: "rat \<Rightarrow> rat \<Rightarrow> rat" where
  "truediv a b = round_double (a / b)"

text \<open>
  \<^verbatim>\<open>timedelta.total_seconds()\<close> is the microsecond count divided by \<open>10\<^sup>6\<close>, as a
  float.
\<close>

definition total_seconds :: "timedelta \<Rightarrow> rat" where
  "total_seconds d = truediv (of_int d) 1000000"

text \<open>Python's \<^verbatim>\<open>int(x)\<close> on a float: the fractional part is dropped, towards zero.\<close>

definition py_int :: "rat \<Rightarrow> int" where
  "py_int x = (if x < 0 then \<lceil>x\<rceil> else \<lfloor>x\<rfloor>)"

text \<open>A location is the pair (latitude, longitude) of the constructor's argument.\<close>

type_synonym location = "rat \<times> rat"

section \<open>The operator and its collaborators\<close>

text \<open>
  \<^verbatim>\<open>ElectricityMapsSchedulerOperator.__init__\<close> stores its three arguments and checks
  none of them.
\<close>

record ElectricityMapsSchedulerOperator =
  patience :: timedelta
  expected_duration :: timedelta
  location :: location

definition init :: "timedelta \<Rightarrow> timedelta \<Rightarrow> location \<Rightarrow> ElectricityMapsSchedulerOperator" where
  "init patience' expected_duration' location' =
     \<lparr>patience = patience', expected_duration = expected_duration', location = location'\<rparr>"

text \<open>
  The Airflow context, of which \<^verbatim>\<open>execute\<close> reads the entry
  \<^verbatim>\<open>"execution_date"\<close> only. Airflow's \<^verbatim>\<open>Context\<close> type declares that entry,
  an aware datetime, so the model takes a context that has it.
\<close>

record Context =
  execution_date :: datetime

text \<open>
  The keyword arguments of one call of \<^verbatim>\<open>schedule_execution\<close>. The type of the
  optimisation signal is declared in \<^verbatim>\<open>lib/electricitymaps.py\<close>, which is not among
  the sources; it is a type parameter here.
\<close>

record 'sig schedule_execution_kwargs =
  expected_duration_hours :: int
  end_datetime :: datetime
  optimization_signal :: 'sig
  locations :: "location list"

text \<open>
  The value \<^verbatim>\<open>schedule_execution\<close> returns, with the fields the tests build it from.
  Its optimal start time is an aware datetime, as the tests' are.
\<close>

record 'sig OptimizationOutput =
  metric_value_immediate_execution :: rat
  metric_value_optimal_execution :: rat
  metric_value_start_window_execution :: rat
  metric_unit :: string
  optimization_metric :: 'sig
  zone_key :: string

record 'sig OptimizerResponse =
  optimal_start_time :: datetime
  optimal_location :: location
  optimization_output :: "'sig OptimizationOutput"

text \<open>
  Airflow's \<^verbatim>\<open>DateTimeTrigger\<close>, and what \<^verbatim>\<open>execute\<close> can raise:
  \<^verbatim>\<open>BaseOperator.defer\<close> raises \<^verbatim>\<open>TaskDeferred\<close> with the trigger and the name of
  the method to resume at, which is how a suspension is registered with the host; any
  exception of \<^verbatim>\<open>schedule_execution\<close> passes through \<^verbatim>\<open>execute\<close>, which has no
  \<^verbatim>\<open>try\<close>; and the addition of a timedelta to a datetime raises
  \<^verbatim>\<open>OverflowError\<close> when the sum is not a datetime.
\<close>

record DateTimeTrigger =
  moment :: datetime
  end_from_trigger :: bool

datatype 'e raised =
    TaskDeferred DateTimeTrigger string
  | ScheduleExecutionError 'e
  | OverflowError

text \<open>
  Python's \<^verbatim>\<open>datetime + timedelta\<close>: the sum, or \<open>None\<close> where Python raises
  \<^verbatim>\<open>OverflowError\<close>.
\<close>

definition datetime_add :: "datetime \<Rightarrow> timedelta \<Rightarrow> datetime option" where
  "datetime_add t d = (if is_datetime (t + d) then Some (t + d) else None)"

definition defer_task :: "DateTimeTrigger \<Rightarrow> string \<Rightarrow> 'e raised + unit" where
  "defer_task trigger method_name = Inl (TaskDeferred trigger method_name)"

text \<open>
  \<^verbatim>\<open>schedule_execution\<close> is imported from \<^verbatim>\<open>lib/electricitymaps.py\<close>; it is a
  parameter of the model: a function from the keyword arguments to the exception it raises
  or the response it returns. Every call is recorded, in order, in the list of calls made
  so far.
\<close>

definition call_schedule_execution ::
  "('sig schedule_execution_kwargs \<Rightarrow> 'e + 'sig OptimizerResponse) \<Rightarrow> 'sig schedule_execution_kwargs
   \<Rightarrow> 'sig schedule_execution_kwargs list
   \<Rightarrow> ('e + 'sig OptimizerResponse) \<times> 'sig schedule_execution_kwargs list" where
  "call_schedule_execution schedule_execution kwargs calls =
     (schedule_execution kwargs, calls @ [kwargs])"

section \<open>The decision\<close>

text \<open>
  The keyword arguments \<^verbatim>\<open>execute\<close> builds for \<^verbatim>\<open>schedule_execution\<close>. They
  are evaluated before the call, and the deadline
  \<^verbatim>\<open>context["execution_date"] + self.expected_duration\<close> is the one of them that can
  raise: the result is \<open>None\<close> where it raises \<^verbatim>\<open>OverflowError\<close>.
  \<^verbatim>\<open>DEFAULT_OPTIMIZATION_SIGNAL\<close> is imported from the same absent module and is a
  parameter as well.
\<close>

definition execute_kwargs ::
  "'sig \<Rightarrow> ElectricityMapsSchedulerOperator \<Rightarrow> Context
   \<Rightarrow> 'sig schedule_execution_kwargs option" where
  "execute_kwargs DEFAULT_OPTIMIZATION_SIGNAL self context =
     (case datetime_add (execution_date context) (expected_duration self) of
        None \<Rightarrow> None
      | Some deadline \<Rightarrow>
          Some \<lparr>expected_duration_hours =
                  py_int (truediv (total_seconds (expected_duration self)) 3600),
                end_datetime = deadline,
                optimization_signal = DEFAULT_OPTIMIZATION_SIGNAL,
                locations = [location self]\<rparr>)"

text \<open>
  \<^verbatim>\<open>execute\<close>. The clock is read once, after \<^verbatim>\<open>schedule_execution\<close> has
  returned: \<open>now\<close> is what \<^verbatim>\<open>datetime.now(timezone.utc)\<close> gives then. The result is
  what \<^verbatim>\<open>execute\<close> raises (\<open>Inl\<close>) or that it returns \<^verbatim>\<open>None\<close> (\<open>Inr ()\<close>),
  together with the calls of \<^verbatim>\<open>schedule_execution\<close> made so far. When the
  arguments cannot be built, \<^verbatim>\<open>OverflowError\<close> is raised and no call is made.
\<close>

definition execute ::
  "('sig schedule_execution_kwargs \<Rightarrow> 'e + 'sig OptimizerResponse) \<Rightarrow> 'sig
   \<Rightarrow> ElectricityMapsSchedulerOperator \<Rightarrow> Context \<Rightarrow> datetime
   \<Rightarrow> 'sig schedule_execution_kwargs list
   \<Rightarrow> ('e raised + unit) \<times> 'sig schedule_execution_kwargs list" where
  "execute schedule_execution DEFAULT_OPTIMIZATION_SIGNAL self context now calls =
     (case execute_kwargs DEFAULT_OPTIMIZATION_SIGNAL self context of
        None \<Rightarrow> (Inl OverflowError, calls)
      | Some kwargs \<Rightarrow>
          (case call_schedule_execution schedule_execution kwargs calls of
             (Inl e, calls') \<Rightarrow> (Inl (ScheduleExecutionError e), calls')
           | (Inr optimal_execution, calls') \<Rightarrow>
               if optimal_start_time optimal_execution < now then (Inr (), calls')
               else (defer_task
                       \<lparr>moment = optimal_start_time optimal_execution, end_from_trigger = True\<rparr>
                       ''execute_complete'', calls')))"

definition execute_complete ::
  "ElectricityMapsSchedulerOperator \<Rightarrow> Context \<Rightarrow> 'a list \<Rightarrow> 'e raised + unit" where
  "execute_complete self context event_list = Inr ()"

text \<open>
  The response of the tests' helper \<^verbatim>\<open>_make_optimizer_response\<close>, and the operator
  and the context of the tests (patience 4 h, expected duration 1 h, Paris; run of
  2024-01-01T10:30:00Z, 1704105000 seconds after the epoch), used for concrete runs.
\<close>

definition make_optimizer_response :: "datetime \<Rightarrow> string OptimizerResponse" where
  "make_optimizer_response t =
     \<lparr>optimal_start_time = t,
      optimal_location = (2.3522, 48.8566),
      optimization_output =
        \<lparr>metric_value_immediate_execution = 100,
         metric_value_optimal_execution = 80,
         metric_value_start_window_execution = 90,
         metric_unit = ''gCO2eq/kWh'',
         optimization_metric = ''FLOW_TRACED_CARBON_INTENSITY'',
         zone_key = ''FR''\<rparr>\<rparr>"

definition operator_fixture :: ElectricityMapsSchedulerOperator where
  "operator_fixture = init (hours 4) (hours 1) (48.8566, 2.3522)"

definition context_fixture :: Context where
  "context_fixture = \<lparr>execution_date = 1704105000000000\<rparr>"

section \<open>Runs of execute\<close>

lemma execute_kwargs_in_range:
  assumes "is_datetime (execution_date context + expected_duration self)"
  shows "execute_kwargs sig self context =
           Some \<lparr>expected_duration_hours =
                  py_int (truediv (total_seconds (expected_duration self)) 3600),
                end_datetime = execution_date context + expected_duration self,
                optimization_signal = sig,
                locations = [location self]\<rparr>"
  using assms by (simp add: execute_kwargs_def datetime_add_def)

lemma execute_kwargs_overflow:
  assumes "\<not> is_datetime (execution_date context + expected_duration self)"
  shows "execute_kwargs sig self context = None"
  using assms by (simp add: execute_kwargs_def datetime_add_def)

lemma execute_overflow:
  assumes "\<not> is_datetime (execution_date context + expected_duration self)"
  shows "execute schedule_execution sig self context now calls = (Inl OverflowError, calls)"
  using assms by (simp add: execute_def execute_kwargs_overflow)

lemma execute_Inr:
  "execute_kwargs sig self context = Some kwargs \<Longrightarrow> schedule_execution kwargs = Inr r \<Longrightarrow>
   execute schedule_execution sig self context now calls =
     (if optimal_start_time r < now then Inr ()
      else Inl (TaskDeferred \<lparr>moment = optimal_start_time r, end_from_trigger = True\<rparr>
                  ''execute_complete''),
      calls @ [kwargs])"
  by (simp add: execute_def call_schedule_execution_def defer_task_def)

lemma execute_Inl:
  "execute_kwargs sig self context = Some kwargs \<Longrightarrow> schedule_execution kwargs = Inl e \<Longrightarrow>
   execute schedule_execution sig self context now calls =
     (Inl (ScheduleExecutionError e), calls @ [kwargs])"
  by (simp add: execute_def call_schedule_execution_def)

lemma snd_execute:
  "execute_kwargs sig self context = Some kwargs \<Longrightarrow>
   snd (execute schedule_execution sig self context now calls) = calls @ [kwargs]"
  by (simp add: execute_def call_schedule_execution_def split: sum.split)

section \<open>Division in double precision\<close>

text \<open>
  \<open>flog2\<close> is the binary exponent: for \<open>x > 0\<close> it is the one \<open>e\<close> with
  \<open>2\<^sup>e \<le> x < 2\<^sup>e\<^sup>+\<^sup>1\<close>.
\<close>

lemma flog2_ge1:
  fixes x :: rat
  assumes "1 \<le> x"
  shows "2 powi (bitlen \<lfloor>x\<rfloor> - 1) \<le> x" "x < 2 powi (bitlen \<lfloor>x\<rfloor> - 1 + 1)"
proof -
  have pos: "0 < \<lfloor>x\<rfloor>" using assms by simp
  note b = bitlen_bounds [OF pos]
  have l1: "1 \<le> bitlen \<lfloor>x\<rfloor>" using pos bitlen_eq_zero_iff [of "\<lfloor>x\<rfloor>"] bitlen_nonneg [of "\<lfloor>x\<rfloor>"] by linarith
  have "(2::rat) powi (bitlen \<lfloor>x\<rfloor> - 1) = of_int (2 ^ nat (bitlen \<lfloor>x\<rfloor> - 1))"
    using l1 by (simp add: power_int_def)
  also have "\<dots> \<le> of_int \<lfloor>x\<rfloor>" using b by (simp only: of_int_le_iff)
  also have "\<dots> \<le> x" by simp
  finally show "2 powi (bitlen \<lfloor>x\<rfloor> - 1) \<le> x" .
  have "\<lfloor>x\<rfloor> + 1 \<le> 2 ^ nat (bitlen \<lfloor>x\<rfloor>)" using b by linarith
  then have "(of_int (\<lfloor>x\<rfloor> + 1) :: rat) \<le> of_int (2 ^ nat (bitlen \<lfloor>x\<rfloor>))" by (simp only: of_int_le_iff)
  moreover have "x < of_int (\<lfloor>x\<rfloor> + 1)" by linarith
  moreover have "(2::rat) powi (bitlen \<lfloor>x\<rfloor> - 1 + 1) = of_int (2 ^ nat (bitlen \<lfloor>x\<rfloor>))"
    using l1 by (simp add: power_int_def)
  ultimately show "x < 2 powi (bitlen \<lfloor>x\<rfloor> - 1 + 1)" by linarith
qed

lemma flog2_lt1:
  fixes x :: rat
  assumes "0 < x" "x < 1"
  shows "2 powi (- bitlen (\<lceil>1 / x\<rceil> - 1)) \<le> x" "x < 2 powi (- bitlen (\<lceil>1 / x\<rceil> - 1) + 1)"
proof -
  let ?m = "\<lceil>1 / x\<rceil>"
  let ?j = "bitlen (?m - 1)"
  have t: "1 < 1 / x" using assms by simp
  then have pos: "0 < ?m - 1" by linarith
  note b = bitlen_bounds [OF pos]
  have j1: "1 \<le> ?j" using pos bitlen_eq_zero_iff [of "?m - 1"] bitlen_nonneg [of "?m - 1"] by linarith
  have "?m \<le> 2 ^ nat ?j" using b by linarith
  then have "(of_int ?m :: rat) \<le> of_int (2 ^ nat ?j)" by (simp only: of_int_le_iff)
  then have "(of_int ?m :: rat) \<le> 2 ^ nat ?j" by simp
  moreover have "1 / x \<le> of_int ?m" by linarith
  ultimately have up: "1 / x \<le> 2 ^ nat ?j" by linarith
  have "(of_int (2 ^ nat (?j - 1)) :: rat) \<le> of_int (?m - 1)" using b by (simp only: of_int_le_iff)
  then have "(2 ^ nat (?j - 1) :: rat) \<le> of_int (?m - 1)" by simp
  moreover have "of_int (?m - 1) < 1 / x" by linarith
  ultimately have lo: "2 ^ nat (?j - 1) < 1 / x" by linarith
  have "(2::rat) powi (- ?j) = 1 / 2 ^ nat ?j"
    using j1 by (simp add: power_int_def field_simps)
  also have "\<dots> \<le> x" using up assms(1) by (simp add: field_simps)
  finally show "2 powi (- ?j) \<le> x" .
  have "x < 1 / 2 ^ nat (?j - 1)" using lo assms(1) by (simp add: field_simps)
  also have "\<dots> = (2::rat) powi (- ?j + 1)"
    using j1 by (simp add: power_int_def field_simps nat_diff_distrib)
  finally show "x < 2 powi (- ?j + 1)" .
qed

lemma flog2_bounds:
  fixes x :: rat
  assumes "0 < x"
  shows "2 powi flog2 x \<le> x" "x < 2 powi (flog2 x + 1)"
  using flog2_ge1 [of x] flog2_lt1 [of x] assms
  by (auto simp: flog2_def)

lemma flog2_unique:
  fixes x :: rat
  assumes "0 < x" "2 powi e \<le> x" "x < 2 powi (e + 1)"
  shows "flog2 x = e"
proof (rule antisym)
  have "(2::rat) powi flog2 x < 2 powi (e + 1)"
    using flog2_bounds(1) [OF assms(1)] assms(3) by linarith
  then have "flog2 x < e + 1"
    using power_int_increasing [of "e + 1" "flog2 x" "2::rat"] by (cases "flog2 x < e + 1") auto
  then show "flog2 x \<le> e" by simp
  have "(2::rat) powi e < 2 powi (flog2 x + 1)"
    using flog2_bounds(2) [OF assms(1)] assms(2) by linarith
  then have "e < flog2 x + 1"
    using power_int_increasing [of "flog2 x + 1" e "2::rat"] by (cases "e < flog2 x + 1") auto
  then show "e \<le> flog2 x" by simp
qed

text \<open>
  Rounding never passes a double: a double \<open>m \<sqdot> 2\<^sup>k\<close> (with \<open>m < 2\<^sup>5\<^sup>3\<close>) that
  bounds \<open>x > 0\<close> from above or from below bounds \<open>round_double x\<close> as well.
\<close>

lemma round_half_even_le:
  assumes "z \<le> of_int N"
  shows "round_half_even z \<le> N"
proof (cases "z = of_int \<lfloor>z\<rfloor>")
  case True
  then have "round_half_even z = \<lfloor>z\<rfloor>" by (simp add: round_half_even_def Let_def)
  moreover have "\<lfloor>z\<rfloor> \<le> N" using assms by (simp add: floor_le_iff)
  ultimately show ?thesis by simp
next
  case False
  then have "of_int \<lfloor>z\<rfloor> < z" using of_int_floor_le [of z] by linarith
  then have "of_int \<lfloor>z\<rfloor> < (of_int N :: rat)" using assms by linarith
  then have "\<lfloor>z\<rfloor> + 1 \<le> N" by simp
  moreover have "round_half_even z \<le> \<lfloor>z\<rfloor> + 1" by (simp add: round_half_even_def Let_def)
  ultimately show ?thesis by linarith
qed

lemma round_half_even_ge:
  assumes "of_int N \<le> z"
  shows "N \<le> round_half_even z"
proof -
  have "N \<le> \<lfloor>z\<rfloor>" using assms by (simp add: le_floor_iff)
  moreover have "\<lfloor>z\<rfloor> \<le> round_half_even z" by (simp add: round_half_even_def Let_def)
  ultimately show ?thesis by linarith
qed

lemma round_double_pos_eq:
  assumes "0 < x"
  shows "round_double x =
           of_int (round_half_even (x / 2 powi (flog2 x - 52))) * 2 powi (flog2 x - 52)"
  using assms by (simp add: round_double_def Let_def)

lemma scaled_ge:
  fixes x :: rat
  assumes "0 < x"
  shows "of_int (2 ^ 52) \<le> x / 2 powi (flog2 x - 52)"
proof -
  have "(2::rat) powi flog2 x = 2 powi (flog2 x - 52) * 2 ^ 52"
    by (simp add: power_int_diff)
  then have "2 powi (flog2 x - 52) * 2 ^ 52 \<le> x"
    using flog2_bounds(1) [OF assms] by simp
  then show ?thesis by (simp add: field_simps)
qed

lemma round_double_le:
  assumes "0 < x" and "x \<le> of_int m * 2 powi k" and "m < 2 ^ 53"
  shows "round_double x \<le> of_int m * 2 powi k"
proof -
  let ?e = "flog2 x - 52"
  have p: "(0::rat) < 2 powi ?e" "(0::rat) < 2 powi k" by simp_all
  have "(2::rat) powi (?e + 52) \<le> x" using flog2_bounds(1) [OF assms(1)] by simp
  also have "x \<le> of_int m * 2 powi k" by fact
  also have "\<dots> < of_int (2 ^ 53) * 2 powi k"
    using assms(3) p(2) by (simp only: mult_less_cancel_right_pos of_int_less_iff)
  also have "\<dots> = 2 powi (k + 53)" by (simp add: power_int_add)
  finally have "?e + 52 < k + 53"
    using power_int_increasing [of "k + 53" "?e + 52" "2::rat"] by (cases "?e + 52 < k + 53") auto
  then have ek: "?e \<le> k" by simp
  then have k: "(2::rat) powi k = of_int (2 ^ nat (k - ?e)) * 2 powi ?e"
    using power_int_add [of "2::rat" "k - ?e" ?e] by (simp add: power_int_def)
  let ?N = "m * 2 ^ nat (k - ?e)"
  have mk: "(of_int m :: rat) * 2 powi k = of_int ?N * 2 powi ?e"
    by (subst k) simp
  have "x / 2 powi ?e \<le> of_int ?N"
    using assms(2) p(1) unfolding mk by (simp add: field_simps)
  then have "round_half_even (x / 2 powi ?e) \<le> ?N" by (rule round_half_even_le)
  then have "(of_int (round_half_even (x / 2 powi ?e)) :: rat) \<le> of_int ?N"
    by (simp only: of_int_le_iff)
  then have "(of_int (round_half_even (x / 2 powi ?e)) :: rat) * 2 powi ?e \<le> of_int ?N * 2 powi ?e"
    using p(1) by (simp only: mult_le_cancel_right_pos)
  then show ?thesis
    unfolding round_double_pos_eq [OF assms(1)] mk .
qed

lemma round_double_ge:
  assumes "0 < x" and "of_int m * 2 powi k \<le> x" and "m < 2 ^ 53"
  shows "of_int m * 2 powi k \<le> round_double x"
proof -
  let ?e = "flog2 x - 52"
  have p: "(0::rat) < 2 powi ?e" "(0::rat) < 2 powi k" by simp_all
  show ?thesis
  proof (cases "?e \<le> k")
    case True
    then have k: "(2::rat) powi k = of_int (2 ^ nat (k - ?e)) * 2 powi ?e"
      using power_int_add [of "2::rat" "k - ?e" ?e] by (simp add: power_int_def)
    let ?N = "m * 2 ^ nat (k - ?e)"
    have mk: "(of_int m :: rat) * 2 powi k = of_int ?N * 2 powi ?e"
      by (subst k) simp
    have "of_int ?N \<le> x / 2 powi ?e"
      using assms(2) p(1) unfolding mk by (simp add: field_simps)
    then have "?N \<le> round_half_even (x / 2 powi ?e)" by (rule round_half_even_ge)
    then have "(of_int ?N :: rat) \<le> of_int (round_half_even (x / 2 powi ?e))"
      by (simp only: of_int_le_iff)
    then have "(of_int ?N :: rat) * 2 powi ?e \<le> of_int (round_half_even (x / 2 powi ?e)) * 2 powi ?e"
      using p(1) by (simp only: mult_le_cancel_right_pos)
    then show ?thesis
      unfolding round_double_pos_eq [OF assms(1)] mk .
  next
    case False
    then have "k + 53 \<le> ?e + 52" by simp
    then have le: "(2::rat) powi (k + 53) \<le> 2 powi (?e + 52)"
      by (intro power_int_increasing) simp_all
    have "(of_int m :: rat) * 2 powi k \<le> of_int (2 ^ 53) * (2::rat) powi k"
      using assms(3) p(2) by (simp only: mult_le_cancel_right_pos of_int_le_iff)
    also have "\<dots> = 2 powi (k + 53)" by (simp add: power_int_add)
    also have "\<dots> \<le> 2 powi (?e + 52)" by (rule le)
    also have "\<dots> = of_int (2 ^ 52) * 2 powi ?e" by (simp add: power_int_diff)
    also have "\<dots> \<le> of_int (round_half_even (x / 2 powi ?e)) * 2 powi ?e"
      using round_half_even_ge [OF scaled_ge [OF assms(1)]] p(1)
      by (simp only: mult_le_cancel_right_pos of_int_le_iff)
    finally show ?thesis
      unfolding round_double_pos_eq [OF assms(1)] .
  qed
qed

lemma round_double_pos:
  assumes "0 < x"
  shows "0 < round_double x"
proof -
  have "(0::rat) < of_int (2 ^ 52) * 2 powi (flog2 x - 52)" by simp
  also have "\<dots> \<le> of_int (round_half_even (x / 2 powi (flog2 x - 52))) * 2 powi (flog2 x - 52)"
    using round_half_even_ge [OF scaled_ge [OF assms]]
    by (simp only: mult_le_cancel_right_pos of_int_le_iff zero_less_power_int zero_less_numeral)
  finally show ?thesis
    unfolding round_double_pos_eq [OF assms] .
qed

lemma round_double_minus: "round_double (- x) = - round_double x"
  by (simp add: round_double_def Let_def sgn_minus)

lemma round_double_0: "round_double 0 = 0"
  by (simp add: round_double_def)

text \<open>
  \<^verbatim>\<open>int(d.total_seconds() / 3600)\<close> against the truncated number of hours. With
  \<open>q\<close> the whole hours of \<open>d \<ge> 0\<close>, the exact number of seconds lies between the doubles
  \<open>3600 q\<close> and \<open>3600 (q + 1) - 2\<^sup>-\<^sup>2\<^sup>0\<close>, and so does its rounding; then the quotient
  by 3600 lies between the doubles \<open>q\<close> and \<open>q + 1 - 2\<^sup>-\<^sup>3\<^sup>2\<close>, and so does its rounding.
  Those four are doubles as long as \<open>q + 1 \<le> 2\<^sup>2\<^sup>1\<close>.
\<close>

lemma hours_nonneg:
  assumes "0 \<le> d" and "d < 2097152 * 3600000000"
  shows "py_int (truediv (total_seconds d) 3600) = d div 3600000000"
proof (cases "d = 0")
  case True
  then show ?thesis by (simp add: total_seconds_def truediv_def round_double_0 py_int_def)
next
  case False
  with assms have dpos: "0 < d" by simp
  let ?q = "d div 3600000000"
  let ?x = "of_int d / 1000000 :: rat"
  let ?y = "round_double ?x"
  let ?z = "round_double (?y / 3600)"
  have q0: "0 \<le> ?q" using assms(1) by (simp add: pos_imp_zdiv_nonneg_iff)
  have q1: "?q + 1 \<le> 2097152" using assms(2) by linarith
  have dlo: "3600000000 * ?q \<le> d"
    by presburger
  have dhi: "d \<le> 3600000000 * (?q + 1) - 1"
    by presburger
  have xpos: "0 < ?x" using dpos by simp
  have ypos: "0 < ?y" using xpos by (rule round_double_pos)
  have y3pos: "0 < ?y / 3600" using ypos by simp
  have zpos: "0 < ?z" using y3pos by (rule round_double_pos)
  have lower: "of_int ?q \<le> ?z"
  proof (cases "?q = 0")
    case True
    then show ?thesis using zpos by simp
  next
    case False
    have "(of_int (3600000000 * ?q) :: rat) \<le> of_int d" using dlo by (simp only: of_int_le_iff)
    then have "of_int (3600 * ?q) * 2 powi 0 \<le> ?x" by simp
    moreover have "3600 * ?q < 2 ^ 53" using q1 by simp
    ultimately have "of_int (3600 * ?q) * 2 powi 0 \<le> ?y"
      using xpos by (intro round_double_ge)
    then have "of_int ?q * 2 powi 0 \<le> ?y / 3600" by simp
    moreover have "?q < 2 ^ 53" using q1 by simp
    ultimately have "of_int ?q * 2 powi 0 \<le> ?z"
      using y3pos by (intro round_double_ge)
    then show ?thesis by simp
  qed
  have upper: "?z < of_int (?q + 1)"
  proof -
    have "(of_int d :: rat) \<le> of_int (3600000000 * (?q + 1) - 1)" using dhi by (simp only: of_int_le_iff)
    then have "?x \<le> of_int (3600 * (?q + 1)) - 1 / 1000000" by simp
    also have "\<dots> \<le> of_int (3600 * (?q + 1) * 2 ^ 20 - 1) * 2 powi (- 20)"
      by (simp add: power_int_minus field_simps)
    finally have "?x \<le> of_int (3600 * (?q + 1) * 2 ^ 20 - 1) * 2 powi (- 20)" .
    moreover have "3600 * (?q + 1) * 2 ^ 20 - 1 < 2 ^ 53" using q1 by simp
    ultimately have "?y \<le> of_int (3600 * (?q + 1) * 2 ^ 20 - 1) * 2 powi (- 20)"
      using xpos by (intro round_double_le)
    then have "?y / 3600 \<le> of_int (3600 * (?q + 1) * 2 ^ 20 - 1) * 2 powi (- 20) / 3600"
      by simp
    also have "\<dots> \<le> of_int ((?q + 1) * 2 ^ 32 - 1) * 2 powi (- 32)"
      by (simp add: power_int_minus field_simps)
    finally have "?y / 3600 \<le> of_int ((?q + 1) * 2 ^ 32 - 1) * 2 powi (- 32)" .
    moreover have "(?q + 1) * 2 ^ 32 - 1 < 2 ^ 53" using q1 by simp
    ultimately have "?z \<le> of_int ((?q + 1) * 2 ^ 32 - 1) * 2 powi (- 32)"
      using y3pos by (intro round_double_le)
    also have "\<dots> < of_int (?q + 1)"
      by (simp add: power_int_minus field_simps)
    finally show ?thesis .
  qed
  have "\<lfloor>?z\<rfloor> = ?q" using lower upper by (simp add: floor_unique)
  moreover have "\<not> ?z < 0" using zpos by simp
  ultimately show ?thesis
    by (simp add: py_int_def total_seconds_def truediv_def)
qed

lemma py_int_minus: "py_int (- x) = - py_int x"
  by (cases "x = 0") (auto simp: py_int_def ceiling_minus floor_minus)

lemma truediv_minus: "truediv (- a) b = - truediv a b"
  by (simp add: truediv_def round_double_minus)

lemma total_seconds_minus: "total_seconds (- d) = - total_seconds d"
  by (simp add: total_seconds_def truediv_minus)

lemma hours_truncated:
  assumes "\<bar>d\<bar> < 2097152 * 3600000000"
  shows "py_int (truediv (total_seconds d) 3600) = sgn d * (\<bar>d\<bar> div 3600000000)"
proof (cases "0 \<le> d")
  case True
  with assms hours_nonneg [of d] show ?thesis
    by (cases "d = 0") simp_all
next
  case False
  then have neg: "d < 0" by simp
  with assms have "0 \<le> - d" "- d < 2097152 * 3600000000" by simp_all
  then have "py_int (truediv (total_seconds (- d)) 3600) = (- d) div 3600000000"
    by (rule hours_nonneg)
  then have "- py_int (truediv (total_seconds d) 3600) = (- d) div 3600000000"
    by (simp only: total_seconds_minus truediv_minus py_int_minus)
  with neg show ?thesis by simp
qed

text \<open>
  Beyond that range the rounding shows. The value of a rounding is found from the exponent
  and from the integer nearest to the scaled number.
\<close>

lemma round_half_even_nearest:
  assumes "\<bar>z - of_int n\<bar> < 1 / 2"
  shows "round_half_even z = n"
proof (cases "of_int n \<le> z")
  case True
  with assms have "\<lfloor>z\<rfloor> = n" by (intro floor_unique) linarith+
  moreover from assms True have "z - of_int n < 1 / 2" by linarith
  ultimately show ?thesis by (simp add: round_half_even_def Let_def)
next
  case False
  have c: "(of_int (n - 1) :: rat) = of_int n - 1" by simp
  from assms False have "of_int (n - 1) \<le> z" "z < of_int (n - 1) + 1"
    unfolding c by linarith+
  then have f: "\<lfloor>z\<rfloor> = n - 1" by (rule floor_unique)
  from assms False have "1 / 2 < z - of_int (n - 1)"
    unfolding c by linarith
  with f show ?thesis by (simp add: round_half_even_def Let_def)
qed

lemma round_double_nearest:
  assumes "0 < x" and "2 powi e \<le> x" and "x < 2 powi (e + 1)"
    and "\<bar>x / 2 powi (e - 52) - of_int n\<bar> < 1 / 2"
  shows "round_double x = of_int n * 2 powi (e - 52)"
proof -
  have "flog2 x = e" using assms(1-3) by (rule flog2_unique)
  then show ?thesis
    using round_half_even_nearest [OF assms(4)] assms(1)
    by (simp add: round_double_pos_eq)
qed

lemma total_seconds_big: "total_seconds 35999999999999999 = 36000000000"
proof -
  have "round_double (35999999999999999 / 1000000) = of_int 4718592000000000 * 2 powi (35 - 52)"
    by (rule round_double_nearest) (simp_all add: power_int_minus)
  then show ?thesis
    by (simp add: total_seconds_def truediv_def power_int_minus)
qed

lemma hours_big: "py_int (truediv (total_seconds 35999999999999999) 3600) = 10000000"
proof -
  have "round_double 10000000 = of_int 5368709120000000 * 2 powi (23 - 52)"
    by (rule round_double_nearest) (simp_all add: power_int_minus)
  then show ?thesis
    by (simp add: total_seconds_big truediv_def py_int_def power_int_minus)
qed

section \<open>Concrete runs\<close>

text \<open>
  The arguments built for the operator of the tests, with its expected duration replaced
  by \<open>d\<close>, as long as the deadline is a datetime and \<open>d\<close> is within the range where
  the hours are the truncated ones.
\<close>

lemma fixture_kwargs:
  assumes "is_datetime (1704105000000000 + d)" and "\<bar>d\<bar> < 2097152 * 3600000000"
  shows "execute_kwargs sig (operator_fixture\<lparr>expected_duration := d\<rparr>) context_fixture =
           Some \<lparr>expected_duration_hours = sgn d * (\<bar>d\<bar> div 3600000000),
                 end_datetime = 1704105000000000 + d,
                 optimization_signal = sig,
                 locations = [(48.8566, 2.3522)]\<rparr>"
proof -
  have "is_datetime (execution_date context_fixture
          + expected_duration (operator_fixture\<lparr>expected_duration := d\<rparr>))"
    using assms(1) by (simp add: context_fixture_def)
  then show ?thesis
    by (simp add: execute_kwargs_in_range hours_truncated [OF assms(2)]
        operator_fixture_def context_fixture_def init_def)
qed

lemma fixture_kwargs_1h:
  "execute_kwargs sig operator_fixture context_fixture =
     Some \<lparr>expected_duration_hours = 1, end_datetime = 1704108600000000,
           optimization_signal = sig, locations = [(48.8566, 2.3522)]\<rparr>"
proof -
  have "operator_fixture\<lparr>expected_duration := hours 1\<rparr> = operator_fixture"
    by (simp add: operator_fixture_def init_def)
  then show ?thesis
    using fixture_kwargs [of "hours 1" sig]
    by (simp add: hours_def is_datetime_def datetime_min_def datetime_max_def)
qed

section \<open>Suspending and proceeding\<close>

text \<open>
  C1. Whenever \<^verbatim>\<open>schedule_execution\<close> is called and returns a response whose optimal
  start time is the current time or later, \<^verbatim>\<open>execute\<close> defers: it raises
  \<^verbatim>\<open>TaskDeferred\<close> with a \<^verbatim>\<open>DateTimeTrigger\<close> whose moment is the oracle's
  optimal start time itself, and with \<^verbatim>\<open>execute_complete\<close> as the method to resume at.
  The comparison is strict, so an optimal start time equal to the current time defers as
  well.
\<close>

theorem execute_defers_from_now_on:
  assumes "execute_kwargs sig self context = Some kwargs"
    and "schedule_execution kwargs = Inr r"
    and "now \<le> optimal_start_time r"
  shows "fst (execute schedule_execution sig self context now calls) =
           Inl (TaskDeferred \<lparr>moment = optimal_start_time r, end_from_trigger = True\<rparr>
                  ''execute_complete'')"
  using assms by (simp add: execute_Inr)

text \<open>
  C2. Whenever \<^verbatim>\<open>schedule_execution\<close> is called and returns a response whose optimal
  start time is strictly before the current time, \<^verbatim>\<open>execute\<close> returns
  \<^verbatim>\<open>None\<close>: nothing is raised, so no deferral is registered.
\<close>

theorem execute_proceeds_when_past:
  assumes "execute_kwargs sig self context = Some kwargs"
    and "schedule_execution kwargs = Inr r"
    and "optimal_start_time r < now"
  shows "fst (execute schedule_execution sig self context now calls) = Inr ()"
  using assms by (simp add: execute_Inr)

text \<open>
  The operator of the tests, run at 2024-01-01T10:30:00Z. For C1 the oracle answers with
  that very instant; for C2 with 09:00:00Z of the same day.
\<close>

theorem execute_defers_from_now_on_witness:
  "execute_kwargs ''FLOW_TRACED_CARBON_INTENSITY'' operator_fixture context_fixture =
     Some \<lparr>expected_duration_hours = 1, end_datetime = 1704108600000000,
           optimization_signal = ''FLOW_TRACED_CARBON_INTENSITY'',
           locations = [(48.8566, 2.3522)]\<rparr>
   \<and> (1704105000000000 :: datetime) \<le> optimal_start_time (make_optimizer_response 1704105000000000)
   \<and> fst (execute (\<lambda>_. Inr (make_optimizer_response 1704105000000000) :: unit + string OptimizerResponse)
          ''FLOW_TRACED_CARBON_INTENSITY'' operator_fixture context_fixture 1704105000000000 []) =
       Inl (TaskDeferred \<lparr>moment = 1704105000000000, end_from_trigger = True\<rparr> ''execute_complete'')"
proof -
  have le: "(1704105000000000 :: datetime) \<le> optimal_start_time (make_optimizer_response 1704105000000000)"
    by (simp add: make_optimizer_response_def)
  show ?thesis
    using le fixture_kwargs_1h [of "''FLOW_TRACED_CARBON_INTENSITY''"]
      execute_defers_from_now_on
        [of "''FLOW_TRACED_CARBON_INTENSITY''" operator_fixture context_fixture
            "\<lparr>expected_duration_hours = 1, end_datetime = 1704108600000000,
              optimization_signal = ''FLOW_TRACED_CARBON_INTENSITY'',
              locations = [(48.8566, 2.3522)]\<rparr>"
            "\<lambda>_. Inr (make_optimizer_response 1704105000000000) :: unit + string OptimizerResponse"
            "make_optimizer_response 1704105000000000" 1704105000000000 "[]",
         OF fixture_kwargs_1h refl le]
    by (simp add: make_optimizer_response_def)
qed

theorem execute_proceeds_when_past_witness:
  "execute_kwargs ''FLOW_TRACED_CARBON_INTENSITY'' operator_fixture context_fixture =
     Some \<lparr>expected_duration_hours = 1, end_datetime = 1704108600000000,
           optimization_signal = ''FLOW_TRACED_CARBON_INTENSITY'',
           locations = [(48.8566, 2.3522)]\<rparr>
   \<and> optimal_start_time (make_optimizer_response 1704099600000000) < (1704105000000000 :: datetime)
   \<and> fst (execute (\<lambda>_. Inr (make_optimizer_response 1704099600000000) :: unit + string OptimizerResponse)
          ''FLOW_TRACED_CARBON_INTENSITY'' operator_fixture context_fixture 1704105000000000 []) = Inr ()"
proof -
  have lt: "optimal_start_time (make_optimizer_response 1704099600000000) < (1704105000000000 :: datetime)"
    by (simp add: make_optimizer_response_def)
  show ?thesis
    using lt fixture_kwargs_1h [of "''FLOW_TRACED_CARBON_INTENSITY''"]
      execute_proceeds_when_past
        [of "''FLOW_TRACED_CARBON_INTENSITY''" operator_fixture context_fixture
            "\<lparr>expected_duration_hours = 1, end_datetime = 1704108600000000,
              optimization_signal = ''FLOW_TRACED_CARBON_INTENSITY'',
              locations = [(48.8566, 2.3522)]\<rparr>"
            "\<lambda>_. Inr (make_optimizer_response 1704099600000000) :: unit + string OptimizerResponse"
            "make_optimizer_response 1704099600000000" 1704105000000000 "[]",
         OF fixture_kwargs_1h refl lt]
    by simp
qed

section \<open>What is checked before the oracle is called\<close>

text \<open>
  C3, as stated, fails: \<^verbatim>\<open>__init__\<close> and \<^verbatim>\<open>execute\<close> check neither the expected
  duration nor the patience. The operator below has a patience of minus four hours and an
  expected duration of minus one hour; \<^verbatim>\<open>schedule_execution\<close> is called all the same
  (with minus one hour and a deadline before the reference time), and \<^verbatim>\<open>execute\<close>
  returns \<^verbatim>\<open>None\<close>.
\<close>

theorem no_rejection_counterexample:
  "patience (init (hours (- 4)) (hours (- 1)) (48.8566, 2.3522)) \<le> 0
   \<and> expected_duration (init (hours (- 4)) (hours (- 1)) (48.8566, 2.3522)) \<le> 0
   \<and> execute (\<lambda>_. Inr (make_optimizer_response 1704099600000000) :: unit + string OptimizerResponse)
        ''FLOW_TRACED_CARBON_INTENSITY'' (init (hours (- 4)) (hours (- 1)) (48.8566, 2.3522))
        context_fixture 1704105000000000 [] =
       (Inr (),
        [\<lparr>expected_duration_hours = - 1, end_datetime = 1704101400000000,
          optimization_signal = ''FLOW_TRACED_CARBON_INTENSITY'',
          locations = [(48.8566, 2.3522)]\<rparr>])"
proof -
  have h: "py_int (truediv (total_seconds (hours (- 1))) 3600) = - 1"
    using hours_truncated [of "hours (- 1)"] by (simp add: hours_def)
  have "is_datetime (execution_date context_fixture
          + expected_duration (init (hours (- 4)) (hours (- 1)) (48.8566, 2.3522)))"
    by (simp add: context_fixture_def init_def hours_def is_datetime_def
        datetime_min_def datetime_max_def)
  then have "execute_kwargs ''FLOW_TRACED_CARBON_INTENSITY''
               (init (hours (- 4)) (hours (- 1)) (48.8566, 2.3522)) context_fixture =
             Some \<lparr>expected_duration_hours = - 1, end_datetime = 1704101400000000,
                   optimization_signal = ''FLOW_TRACED_CARBON_INTENSITY'',
                   locations = [(48.8566, 2.3522)]\<rparr>"
    using h by (simp add: execute_kwargs_in_range context_fixture_def init_def hours_def)
  then show ?thesis
    by (simp add: execute_Inr init_def hours_def make_optimizer_response_def)
qed

text \<open>
  C3, amended. No configuration is rejected for its patience, for its expected duration or
  for its locations: nothing checks them. For every patience and every expected duration,
  of either sign, \<^verbatim>\<open>execute\<close> calls \<^verbatim>\<open>schedule_execution\<close> exactly once when
  the deadline, execution date plus expected duration, is a datetime of the years 1 to 9999;
  when it is not, the addition raises \<^verbatim>\<open>OverflowError\<close> and the oracle is not called.
  An empty list of locations cannot be configured: the operator takes one location, and the
  list sent to the oracle is not empty.
\<close>

theorem oracle_called_unless_overflow:
  "if is_datetime (execution_date context + d)
   then length (snd (execute schedule_execution sig (init p d loc) context now calls)) =
          Suc (length calls)
      \<and> locations (last (snd (execute schedule_execution sig (init p d loc) context now calls)))
          \<noteq> []
   else execute schedule_execution sig (init p d loc) context now calls =
          (Inl OverflowError, calls)"
proof (cases "is_datetime (execution_date context + d)")
  case True
  then have "is_datetime (execution_date context + expected_duration (init p d loc))"
    by (simp add: init_def)
  then obtain kwargs where k: "execute_kwargs sig (init p d loc) context = Some kwargs"
    and l: "locations kwargs = [location (init p d loc)]"
    by (simp add: execute_kwargs_in_range)
  from k have "snd (execute schedule_execution sig (init p d loc) context now calls) =
      calls @ [kwargs]"
    by (rule snd_execute)
  with l True show ?thesis
    by simp
next
  case False
  then have "\<not> is_datetime (execution_date context + expected_duration (init p d loc))"
    by (simp add: init_def)
  then have "execute schedule_execution sig (init p d loc) context now calls =
      (Inl OverflowError, calls)"
    by (rule execute_overflow)
  with False show ?thesis
    by simp
qed

text \<open>
  Both branches are taken: the operator of the counterexample is within the range, and an
  expected duration of 72000000 hours from 2024 is not.
\<close>

theorem oracle_called_unless_overflow_witness:
  "length (snd (execute (\<lambda>_. Inr (make_optimizer_response 1704099600000000) :: unit + string OptimizerResponse)
          ''FLOW_TRACED_CARBON_INTENSITY'' (init (hours (- 4)) (hours (- 1)) (48.8566, 2.3522))
          context_fixture 1704105000000000 [])) = Suc 0
   \<and> execute (\<lambda>_. Inr (make_optimizer_response 1704099600000000) :: unit + string OptimizerResponse)
        ''FLOW_TRACED_CARBON_INTENSITY'' (init (hours 4) (hours 72000000) (48.8566, 2.3522))
        context_fixture 1704105000000000 [] = (Inl OverflowError, [])"
proof -
  have a: "is_datetime (execution_date context_fixture + hours (- 1))"
    and b: "\<not> is_datetime (execution_date context_fixture + hours 72000000)"
    by (simp_all add: context_fixture_def hours_def is_datetime_def
        datetime_min_def datetime_max_def)
  show ?thesis
    using
      oracle_called_unless_overflow
        [of context_fixture "hours (- 1)"
            "\<lambda>_. Inr (make_optimizer_response 1704099600000000) :: unit + string OptimizerResponse"
            "''FLOW_TRACED_CARBON_INTENSITY''" "hours (- 4)" "(48.8566, 2.3522)"
            1704105000000000 "[]"]
      oracle_called_unless_overflow
        [of context_fixture "hours 72000000"
            "\<lambda>_. Inr (make_optimizer_response 1704099600000000) :: unit + string OptimizerResponse"
            "''FLOW_TRACED_CARBON_INTENSITY''" "hours 4" "(48.8566, 2.3522)"
            1704105000000000 "[]"]
    by (simp add: a b)
qed

section \<open>The call of the oracle\<close>

text \<open>
  C4. The duration argument is meant to be the expected duration in whole hours, truncated;
  the code computes it as \<^verbatim>\<open>int(total_seconds() / 3600)\<close>, on doubles, and misses
  the truncation on long durations. For the expected duration of \<open>10\<^sup>7\<close> hours less one
  microsecond, the exact number of seconds, 35999999999.999999, is not a double: the doubles
  there are \<open>2\<^sup>-\<^sup>1\<^sup>7\<close> apart, and the nearest one is 36000000000. So
  \<^verbatim>\<open>total_seconds()\<close> is 36000000000.0 and the oracle is sent 10000000 hours, where
  the truncation of the duration gives 9999999. The deadline, in the year 3164, is a
  datetime, so the call is made.
\<close>

theorem hours_rounded_up_at_failing_input:
  "snd (execute (\<lambda>_. Inr (make_optimizer_response 1704099600000000) :: unit + string OptimizerResponse)
          ''FLOW_TRACED_CARBON_INTENSITY''
          (operator_fixture\<lparr>expected_duration := hours 10000000 - microseconds 1\<rparr>)
          context_fixture 1704105000000000 []) =
     [\<lparr>expected_duration_hours = 10000000,
       end_datetime = 1704105000000000 + (hours 10000000 - microseconds 1),
       optimization_signal = ''FLOW_TRACED_CARBON_INTENSITY'',
       locations = [(48.8566, 2.3522)]\<rparr>]
   \<and> sgn (hours 10000000 - microseconds 1) * (\<bar>hours 10000000 - microseconds 1\<bar> div hours 1)
       = 9999999"
proof -
  have d: "hours 10000000 - microseconds 1 = 35999999999999999"
    by (simp add: hours_def microseconds_def)
  have "is_datetime (execution_date context_fixture
          + expected_duration (operator_fixture\<lparr>expected_duration := 35999999999999999\<rparr>))"
    by (simp add: context_fixture_def is_datetime_def datetime_min_def datetime_max_def)
  then have "execute_kwargs ''FLOW_TRACED_CARBON_INTENSITY''
               (operator_fixture\<lparr>expected_duration := 35999999999999999\<rparr>) context_fixture =
             Some \<lparr>expected_duration_hours = 10000000,
                   end_datetime = 1704105000000000 + 35999999999999999,
                   optimization_signal = ''FLOW_TRACED_CARBON_INTENSITY'',
                   locations = [(48.8566, 2.3522)]\<rparr>"
    by (simp add: execute_kwargs_in_range hours_big context_fixture_def operator_fixture_def
        init_def)
  then have "snd (execute (\<lambda>_. Inr (make_optimizer_response 1704099600000000) :: unit + string OptimizerResponse)
          ''FLOW_TRACED_CARBON_INTENSITY''
          (operator_fixture\<lparr>expected_duration := 35999999999999999\<rparr>)
          context_fixture 1704105000000000 []) =
        [] @ [\<lparr>expected_duration_hours = 10000000,
               end_datetime = 1704105000000000 + 35999999999999999,
               optimization_signal = ''FLOW_TRACED_CARBON_INTENSITY'',
               locations = [(48.8566, 2.3522)]\<rparr>]"
    by (rule snd_execute)
  then show ?thesis
    unfolding d by (simp add: hours_def)
qed

text \<open>
  Where the code does what C4 says: whenever the deadline is a datetime, one call is added
  to the calls made before, with the one-element list of the configured location; and its
  duration argument is the expected duration in whole hours, truncated towards zero, for
  every expected duration shorter than \<open>2\<^sup>2\<^sup>1\<close> hours (some 239 years) in absolute value.
\<close>

lemma oracle_call_within_range:
  assumes "is_datetime (execution_date context + expected_duration self)"
    and "\<bar>expected_duration self\<bar> < hours 2097152"
  shows "snd (execute schedule_execution sig self context now calls) =
           calls @
           [\<lparr>expected_duration_hours =
               sgn (expected_duration self) * (\<bar>expected_duration self\<bar> div hours 1),
             end_datetime = execution_date context + expected_duration self,
             optimization_signal = sig,
             locations = [location self]\<rparr>]"
proof -
  have "\<bar>expected_duration self\<bar> < 2097152 * 3600000000"
    using assms(2) by (simp add: hours_def)
  then have "py_int (truediv (total_seconds (expected_duration self)) 3600) =
      sgn (expected_duration self) * (\<bar>expected_duration self\<bar> div hours 1)"
    by (simp add: hours_truncated hours_def)
  then have "execute_kwargs sig self context =
      Some \<lparr>expected_duration_hours =
               sgn (expected_duration self) * (\<bar>expected_duration self\<bar> div hours 1),
            end_datetime = execution_date context + expected_duration self,
            optimization_signal = sig,
            locations = [location self]\<rparr>"
    by (simp add: execute_kwargs_in_range [OF assms(1)])
  then show ?thesis
    by (rule snd_execute)
qed

text \<open>
  C5. The deadline sent to the oracle is the reference time (the context's execution date)
  plus the span (the expected duration), exactly: it is not rounded and not clamped. Where
  that sum is not a datetime, nothing is sent: the addition raises.
\<close>

theorem deadline_is_reference_plus_span:
  "if is_datetime (execution_date context + expected_duration self)
   then \<exists>kwargs. snd (execute schedule_execution sig self context now calls) = calls @ [kwargs]
          \<and> end_datetime kwargs = execution_date context + expected_duration self
   else execute schedule_execution sig self context now calls = (Inl OverflowError, calls)"
proof (cases "is_datetime (execution_date context + expected_duration self)")
  case True
  then obtain kwargs where k: "execute_kwargs sig self context = Some kwargs"
    and e: "end_datetime kwargs = execution_date context + expected_duration self"
    by (simp add: execute_kwargs_in_range)
  from k have "snd (execute schedule_execution sig self context now calls) = calls @ [kwargs]"
    by (rule snd_execute)
  with e True show ?thesis
    by auto
next
  case False
  then show ?thesis
    by (simp add: execute_overflow)
qed

theorem deadline_is_reference_plus_span_witness:
  "\<exists>kwargs. snd (execute (\<lambda>_. Inr (make_optimizer_response 1704099600000000) :: unit + string OptimizerResponse)
        ''FLOW_TRACED_CARBON_INTENSITY'' operator_fixture context_fixture 1704105000000000 [])
        = [kwargs]
     \<and> end_datetime kwargs = 1704108600000000"
proof -
  have "is_datetime (execution_date context_fixture + expected_duration operator_fixture)"
    by (simp add: context_fixture_def operator_fixture_def init_def hours_def is_datetime_def
        datetime_min_def datetime_max_def)
  then show ?thesis
    using deadline_is_reference_plus_span
      [of context_fixture operator_fixture
          "\<lambda>_. Inr (make_optimizer_response 1704099600000000) :: unit + string OptimizerResponse"
          "''FLOW_TRACED_CARBON_INTENSITY''" 1704105000000000 "[]"]
    by (simp add: context_fixture_def operator_fixture_def init_def hours_def)
qed

text \<open>
  C6. The patience does not reach the oracle: two operators that differ in their patience
  only make the same call and come to the same result, whatever the oracle, the context and
  the clock.
\<close>

theorem patience_is_not_used:
  "execute schedule_execution sig (self\<lparr>patience := p1\<rparr>) context now calls =
   execute schedule_execution sig (self\<lparr>patience := p2\<rparr>) context now calls"
proof -
  have "execute_kwargs sig (self\<lparr>patience := p1\<rparr>) context =
        execute_kwargs sig (self\<lparr>patience := p2\<rparr>) context"
    by (simp add: execute_kwargs_def split: option.split)
  then show ?thesis
    by (simp add: execute_def)
qed

text \<open>
  C7. With the reference time fixed, the deadline sent to the oracle does not decrease
  when the span grows. The span the code uses is the expected duration; the patience,
  whatever it is changed to, leaves the deadline as it is. The deadlines compared are those
  that are sent: both sums are datetimes.
\<close>

theorem deadline_is_monotone:
  assumes "s1 \<le> s2"
    and "is_datetime (execution_date ctx + s1)" and "is_datetime (execution_date ctx + s2)"
  shows "\<exists>k1 k2.
           snd (execute schedule_execution sig (init p s1 loc) ctx now calls) = calls @ [k1]
         \<and> snd (execute schedule_execution' sig (init p' s2 loc) ctx now' calls) = calls @ [k2]
         \<and> end_datetime k1 \<le> end_datetime k2"
proof -
  have "is_datetime (execution_date ctx + expected_duration (init p s1 loc))"
    using assms(2) by (simp add: init_def)
  then obtain k1 where k1: "execute_kwargs sig (init p s1 loc) ctx = Some k1"
    and e1: "end_datetime k1 = execution_date ctx + s1"
    by (simp add: execute_kwargs_in_range init_def)
  have "is_datetime (execution_date ctx + expected_duration (init p' s2 loc))"
    using assms(3) by (simp add: init_def)
  then obtain k2 where k2: "execute_kwargs sig (init p' s2 loc) ctx = Some k2"
    and e2: "end_datetime k2 = execution_date ctx + s2"
    by (simp add: execute_kwargs_in_range init_def)
  have "snd (execute schedule_execution sig (init p s1 loc) ctx now calls) = calls @ [k1]"
    using k1 by (rule snd_execute)
  moreover have "snd (execute schedule_execution' sig (init p' s2 loc) ctx now' calls) = calls @ [k2]"
    using k2 by (rule snd_execute)
  moreover have "end_datetime k1 \<le> end_datetime k2"
    using assms(1) e1 e2 by simp
  ultimately show ?thesis
    by blast
qed

theorem deadline_is_monotone_witness:
  "hours 1 \<le> hours 2
   \<and> is_datetime (execution_date context_fixture + hours 1)
   \<and> is_datetime (execution_date context_fixture + hours 2)
   \<and> (\<exists>k1 k2.
         snd (execute (\<lambda>_. Inr (make_optimizer_response 1704099600000000) :: unit + string OptimizerResponse)
                ''FLOW_TRACED_CARBON_INTENSITY'' (init (hours 4) (hours 1) (48.8566, 2.3522))
                context_fixture 1704105000000000 []) = [] @ [k1]
       \<and> snd (execute (\<lambda>_. Inr (make_optimizer_response 1704099600000000) :: unit + string OptimizerResponse)
                ''FLOW_TRACED_CARBON_INTENSITY'' (init (hours 8) (hours 2) (48.8566, 2.3522))
                context_fixture 1704105000000000 []) = [] @ [k2]
       \<and> end_datetime k1 \<le> end_datetime k2)"
proof -
  have le: "hours 1 \<le> hours 2"
    by (simp add: hours_def)
  have a: "is_datetime (execution_date context_fixture + hours 1)"
    and b: "is_datetime (execution_date context_fixture + hours 2)"
    by (simp_all add: context_fixture_def hours_def is_datetime_def datetime_min_def
        datetime_max_def)
  from le a b
    deadline_is_monotone
      [OF le a b,
       where schedule_execution = "\<lambda>_. Inr (make_optimizer_response 1704099600000000) :: unit + string OptimizerResponse"
         and schedule_execution' = "\<lambda>_. Inr (make_optimizer_response 1704099600000000) :: unit + string OptimizerResponse"
         and sig = "''FLOW_TRACED_CARBON_INTENSITY''" and loc = "(48.8566, 2.3522)"
         and p = "hours 4" and p' = "hours 8"
         and now = 1704105000000000 and now' = 1704105000000000 and calls = "[]"]
  show ?thesis
    by simp
qed

section \<open>Failure of the oracle\<close>

text \<open>
  C8. When \<^verbatim>\<open>schedule_execution\<close> is called and raises, \<^verbatim>\<open>execute\<close> raises that
  same exception. The oracle has been called once and is not called again;
  \<^verbatim>\<open>execute\<close> neither returns nor defers.
\<close>

theorem oracle_error_propagates:
  assumes "execute_kwargs sig self context = Some kwargs"
    and "schedule_execution kwargs = Inl e"
  shows "execute schedule_execution sig self context now calls =
           (Inl (ScheduleExecutionError e), calls @ [kwargs])
         \<and> fst (execute schedule_execution sig self context now calls) \<noteq> Inr ()
         \<and> (\<forall>trigger method_name.
               fst (execute schedule_execution sig self context now calls) \<noteq>
                 Inl (TaskDeferred trigger method_name))"
proof -
  have "execute schedule_execution sig self context now calls =
          (Inl (ScheduleExecutionError e), calls @ [kwargs])"
    using assms by (rule execute_Inl)
  then show ?thesis
    by simp
qed

theorem oracle_error_propagates_witness:
  "execute_kwargs ''FLOW_TRACED_CARBON_INTENSITY'' operator_fixture context_fixture =
     Some \<lparr>expected_duration_hours = 1, end_datetime = 1704108600000000,
           optimization_signal = ''FLOW_TRACED_CARBON_INTENSITY'',
           locations = [(48.8566, 2.3522)]\<rparr>
   \<and> execute (\<lambda>_. Inl ''transport error'' :: string + string OptimizerResponse)
        ''FLOW_TRACED_CARBON_INTENSITY'' operator_fixture context_fixture 1704105000000000 [] =
       (Inl (ScheduleExecutionError ''transport error''),
        [] @ [\<lparr>expected_duration_hours = 1, end_datetime = 1704108600000000,
               optimization_signal = ''FLOW_TRACED_CARBON_INTENSITY'',
               locations = [(48.8566, 2.3522)]\<rparr>])"
proof (rule conjI)
  show "execute_kwargs ''FLOW_TRACED_CARBON_INTENSITY'' operator_fixture context_fixture =
     Some \<lparr>expected_duration_hours = 1, end_datetime = 1704108600000000,
           optimization_signal = ''FLOW_TRACED_CARBON_INTENSITY'',
           locations = [(48.8566, 2.3522)]\<rparr>"
    by (rule fixture_kwargs_1h)
  show "execute (\<lambda>_. Inl ''transport error'' :: string + string OptimizerResponse)
        ''FLOW_TRACED_CARBON_INTENSITY'' operator_fixture context_fixture 1704105000000000 [] =
       (Inl (ScheduleExecutionError ''transport error''),
        [] @ [\<lparr>expected_duration_hours = 1, end_datetime = 1704108600000000,
               optimization_signal = ''FLOW_TRACED_CARBON_INTENSITY'',
               locations = [(48.8566, 2.3522)]\<rparr>])"
    using oracle_error_propagates
      [of "''FLOW_TRACED_CARBON_INTENSITY''" operator_fixture context_fixture
          "\<lparr>expected_duration_hours = 1, end_datetime = 1704108600000000,
            optimization_signal = ''FLOW_TRACED_CARBON_INTENSITY'',
            locations = [(48.8566, 2.3522)]\<rparr>"
          "\<lambda>_. Inl ''transport error'' :: string + string OptimizerResponse"
          "''transport error''" 1704105000000000 "[]",
       OF fixture_kwargs_1h refl]
    by (rule conjunct1)
qed

section \<open>Durations below one hour, and the list of locations\<close>

text \<open>
  C9. For an expected duration of less than one hour (of either sign), the duration
  argument of the oracle call is 0, which is below the minimum of 1 the oracle's interface
  states; \<^verbatim>\<open>execute\<close> passes the 0 on as it is. The call is made whenever the
  deadline is a datetime.
\<close>

theorem sub_hour_duration_is_zero_hours:
  assumes "\<bar>expected_duration self\<bar> < hours 1"
  shows "if is_datetime (execution_date context + expected_duration self)
         then \<exists>kwargs. snd (execute schedule_execution sig self context now calls) = calls @ [kwargs]
                \<and> expected_duration_hours kwargs = 0
                \<and> expected_duration_hours kwargs < 1
         else execute schedule_execution sig self context now calls = (Inl OverflowError, calls)"
proof (cases "is_datetime (execution_date context + expected_duration self)")
  case True
  have small: "\<bar>expected_duration self\<bar> div 3600000000 = 0"
    and range: "\<bar>expected_duration self\<bar> < 2097152 * 3600000000"
    using assms by (simp_all add: hours_def)
  obtain kwargs where k: "execute_kwargs sig self context = Some kwargs"
    and z: "expected_duration_hours kwargs = 0"
    using True by (simp add: execute_kwargs_in_range hours_truncated [OF range] small)
  from k have "snd (execute schedule_execution sig self context now calls) = calls @ [kwargs]"
    by (rule snd_execute)
  with z True show ?thesis
    by auto
next
  case False
  then show ?thesis
    by (simp add: execute_overflow)
qed

theorem sub_hour_duration_is_zero_hours_witness:
  "\<bar>expected_duration (operator_fixture\<lparr>expected_duration := minutes 30\<rparr>)\<bar> < hours 1
   \<and> (\<exists>kwargs.
         snd (execute (\<lambda>_. Inr (make_optimizer_response 1704099600000000) :: unit + string OptimizerResponse)
                ''FLOW_TRACED_CARBON_INTENSITY''
                (operator_fixture\<lparr>expected_duration := minutes 30\<rparr>)
                context_fixture 1704105000000000 []) = [kwargs]
       \<and> expected_duration_hours kwargs = 0
       \<and> expected_duration_hours kwargs < 1)"
proof -
  have lt: "\<bar>expected_duration (operator_fixture\<lparr>expected_duration := minutes 30\<rparr>)\<bar> < hours 1"
    by (simp add: hours_def minutes_def)
  have "is_datetime (execution_date context_fixture
          + expected_duration (operator_fixture\<lparr>expected_duration := minutes 30\<rparr>))"
    by (simp add: context_fixture_def minutes_def is_datetime_def datetime_min_def
        datetime_max_def)
  then show ?thesis
    using lt
      sub_hour_duration_is_zero_hours
        [OF lt, of context_fixture "\<lambda>_. Inr (make_optimizer_response 1704099600000000) :: unit + string OptimizerResponse"
            "''FLOW_TRACED_CARBON_INTENSITY''" 1704105000000000 "[]"]
    by simp
qed

text \<open>
  C10. The list of locations of every oracle call is the one-element list of the
  configured location: it is never empty and never longer. The call is made whenever the
  deadline is a datetime.
\<close>

theorem locations_is_singleton:
  "if is_datetime (execution_date context + expected_duration self)
   then \<exists>kwargs. snd (execute schedule_execution sig self context now calls) = calls @ [kwargs]
          \<and> locations kwargs = [location self]
          \<and> length (locations kwargs) = 1
   else execute schedule_execution sig self context now calls = (Inl OverflowError, calls)"
proof (cases "is_datetime (execution_date context + expected_duration self)")
  case True
  then obtain kwargs where k: "execute_kwargs sig self context = Some kwargs"
    and l: "locations kwargs = [location self]"
    by (simp add: execute_kwargs_in_range)
  from k have "snd (execute schedule_execution sig self context now calls) = calls @ [kwargs]"
    by (rule snd_execute)
  with l True show ?thesis
    by auto
next
  case False
  then show ?thesis
    by (simp add: execute_overflow)
qed

theorem locations_is_singleton_witness:
  "\<exists>kwargs. snd (execute (\<lambda>_. Inr (make_optimizer_response 1704099600000000) :: unit + string OptimizerResponse)
        ''FLOW_TRACED_CARBON_INTENSITY'' operator_fixture context_fixture 1704105000000000 [])
        = [kwargs]
     \<and> locations kwargs = [(48.8566, 2.3522)]
     \<and> length (locations kwargs) = 1"
proof -
  have "is_datetime (execution_date context_fixture + expected_duration operator_fixture)"
    by (simp add: context_fixture_def operator_fixture_def init_def hours_def is_datetime_def
        datetime_min_def datetime_max_def)
  then show ?thesis
    using locations_is_singleton
      [of context_fixture operator_fixture
          "\<lambda>_. Inr (make_optimizer_response 1704099600000000) :: unit + string OptimizerResponse"
          "''FLOW_TRACED_CARBON_INTENSITY''" 1704105000000000 "[]"]
    by (simp add: operator_fixture_def init_def)
qed

end
